theory Spec2Isabelle
  imports Complex_Main "HOL-Library.Product_Lexorder" "HOL-Library.List_Lexorder"
    "HOL-Library.Char_ord"
begin

section \<open>Data model of the retail dashboard (genai\_dashboard\_app.py)\<close>

text \<open>
  The script works on three pandas data frames. A frame is modelled by its column labels
  and its rows; a cell is a missing marker (NaN/NaT), a number, a string or a timestamp.
  Numbers are exact rationals: binary floating point rounding is outside the model.
  A timestamp is (year, month, day, time within the day), ordered lexicographically.
\<close>

type_synonym timestamp = "int \<times> nat \<times> nat \<times> nat"

datatype cell = Missing | Num rat | Str string | Date timestamp

record dataframe =
  columns :: "string list"
  rows :: "cell list list"

datatype error = KeyError string | NotOneDimensional string | NotNumeric string
  | NotDatetime string

text \<open>
  The pandas routines the script calls with \<open>errors="coerce"\<close> are taken as parameters:
  how a string is read as a number or as a date, and how a number and a timestamp convert
  into each other. \<open>None\<close> is a failed parse.
\<close>

record parsers =
  parse_numeric :: "string \<Rightarrow> rat option"
  parse_datetime :: "string \<Rightarrow> timestamp option"
  datetime_of_number :: "rat \<Rightarrow> timestamp option"
  number_of_datetime :: "timestamp \<Rightarrow> rat option"

text \<open>\<open>pd.DataFrame()\<close>: no columns, no rows.\<close>

definition DataFrame :: dataframe where
  "DataFrame = \<lparr>columns = [], rows = []\<rparr>"

text \<open>\<open>df.empty\<close>: some axis has length zero.\<close>

definition empty :: "dataframe \<Rightarrow> bool" where
  "empty df = (columns df = [] \<or> rows df = [])"

text \<open>\<open>pd.read_csv(f) if os.path.exists(f) else pd.DataFrame()\<close>; \<open>None\<close> is an absent file.\<close>

definition read_csv_if_exists :: "dataframe option \<Rightarrow> dataframe" where
  "read_csv_if_exists src = (case src of Some df \<Rightarrow> df | None \<Rightarrow> DataFrame)"

subsection \<open>Column labels\<close>

text \<open>\<open>str.strip()\<close> on the ASCII white space characters.\<close>

definition is_space :: "char \<Rightarrow> bool" where
  "is_space c = (of_char c \<in> set [9, 10, 11, 12, 13, 28, 29, 30, 31, 32 :: nat])"

definition strip :: "string \<Rightarrow> string" where
  "strip s = rev (dropWhile is_space (rev (dropWhile is_space s)))"

definition strip_columns :: "dataframe \<Rightarrow> dataframe" where
  "strip_columns df = df\<lparr>columns := map strip (columns df)\<rparr>"

definition positions :: "string \<Rightarrow> string list \<Rightarrow> nat list" where
  "positions n cs = filter (\<lambda>i. cs ! i = n) [0..<length cs]"

text \<open>
  \<open>df[name]\<close> as a one-dimensional series: the label must occur (else \<open>KeyError\<close>) and
  must occur once (a repeated label selects a frame, on which the callers of this script
  fail).
\<close>

definition column_index :: "dataframe \<Rightarrow> string \<Rightarrow> error + nat" where
  "column_index df n =
     (case positions n (columns df) of
        [] \<Rightarrow> Inl (KeyError n)
      | [i] \<Rightarrow> Inr i
      | _ \<Rightarrow> Inl (NotOneDimensional n))"

definition rectangular :: "dataframe \<Rightarrow> bool" where
  "rectangular df = list_all (\<lambda>r. length r = length (columns df)) (rows df)"

definition cell_at :: "cell list \<Rightarrow> nat \<Rightarrow> cell" where
  "cell_at r i = (if i < length r then r ! i else Missing)"

definition series :: "dataframe \<Rightarrow> nat \<Rightarrow> cell list" where
  "series df i = map (\<lambda>r. cell_at r i) (rows df)"

definition column :: "dataframe \<Rightarrow> string \<Rightarrow> error + cell list" where
  "column df n =
     (case column_index df n of Inl e \<Rightarrow> Inl e | Inr i \<Rightarrow> Inr (series df i))"

subsection \<open>Normalization: \<open>load_data\<close>\<close>

text \<open>\<open>pd.to_datetime(s, errors="coerce")\<close>, cell by cell.\<close>

definition to_datetime :: "parsers \<Rightarrow> cell \<Rightarrow> cell" where
  "to_datetime P c =
     (case c of
        Missing \<Rightarrow> Missing
      | Date d \<Rightarrow> Date d
      | Str s \<Rightarrow> (case parse_datetime P s of Some d \<Rightarrow> Date d | None \<Rightarrow> Missing)
      | Num r \<Rightarrow> (case datetime_of_number P r of Some d \<Rightarrow> Date d | None \<Rightarrow> Missing))"

text \<open>\<open>pd.to_numeric(s, errors="coerce")\<close>, cell by cell, and \<open>fillna(0)\<close>.\<close>

definition to_numeric :: "parsers \<Rightarrow> cell \<Rightarrow> cell" where
  "to_numeric P c =
     (case c of
        Missing \<Rightarrow> Missing
      | Num r \<Rightarrow> Num r
      | Str s \<Rightarrow> (case parse_numeric P s of Some r \<Rightarrow> Num r | None \<Rightarrow> Missing)
      | Date d \<Rightarrow> (case number_of_datetime P d of Some r \<Rightarrow> Num r | None \<Rightarrow> Missing))"

definition fillna :: "rat \<Rightarrow> cell \<Rightarrow> cell" where
  "fillna v c = (case c of Missing \<Rightarrow> Num v | _ \<Rightarrow> c)"

text \<open>
  \<open>if name in df.columns: df[name] = f(df[name])\<close>: nothing happens when the label is
  absent; the assignment replaces the cells of that column in every row.
\<close>

definition coerce_column :: "(cell \<Rightarrow> cell) \<Rightarrow> string \<Rightarrow> dataframe \<Rightarrow> error + dataframe" where
  "coerce_column f n df =
     (if n \<in> set (columns df) then
        (case column_index df n of
           Inl e \<Rightarrow> Inl e
         | Inr i \<Rightarrow> Inr (df\<lparr>rows := map (\<lambda>r. r[i := f (cell_at r i)]) (rows df)\<rparr>))
      else Inr df)"

definition and_then :: "error + 'a \<Rightarrow> ('a \<Rightarrow> error + 'b) \<Rightarrow> error + 'b" where
  "and_then m f = (case m of Inl e \<Rightarrow> Inl e | Inr x \<Rightarrow> f x)"

text \<open>
  Lines 24--44 of \<open>load_data\<close>: trim the labels of the three frames, then coerce the
  two date columns and the four numeric columns, each only if its label is present.
\<close>

definition normalize ::
  "parsers \<Rightarrow> dataframe \<times> dataframe \<times> dataframe
     \<Rightarrow> error + (dataframe \<times> dataframe \<times> dataframe)" where
  "normalize P raw =
     (case raw of (customers0, inventory0, sales0) \<Rightarrow>
        let customers = strip_columns customers0;
            inventory = strip_columns inventory0;
            sales = strip_columns sales0
        in and_then (coerce_column (to_datetime P) ''sale_date'' sales) (\<lambda>sales.
           and_then (coerce_column (to_datetime P) ''join_date'' customers) (\<lambda>customers.
           and_then (coerce_column (fillna 0 \<circ> to_numeric P) ''total_amount'' sales) (\<lambda>sales.
           and_then (coerce_column (fillna 0 \<circ> to_numeric P) ''quantity'' sales) (\<lambda>sales.
           and_then (coerce_column (fillna 0 \<circ> to_numeric P) ''price_per_unit'' inventory)
             (\<lambda>inventory.
           and_then (coerce_column (fillna 0 \<circ> to_numeric P) ''quantity_in_stock'' inventory)
             (\<lambda>inventory.
           Inr (customers, inventory, sales))))))))"

text \<open>\<open>load_data\<close>: read the three files (lines 19--21), then normalize.\<close>

definition load_data ::
  "parsers \<Rightarrow> dataframe option \<times> dataframe option \<times> dataframe option
     \<Rightarrow> error + (dataframe \<times> dataframe \<times> dataframe)" where
  "load_data P src =
     (case src of (customers_csv, inventory_csv, sales_csv) \<Rightarrow>
        normalize P (read_csv_if_exists customers_csv, read_csv_if_exists inventory_csv,
                     read_csv_if_exists sales_csv))"

subsection \<open>Numeric columns in the engine\<close>

text \<open>
  The aggregations read a column as numbers. After \<open>load_data\<close> the coerced numeric
  columns hold numbers only; any other cell is reported as \<open>NotNumeric\<close>.
\<close>

definition as_numbers :: "string \<Rightarrow> cell list \<Rightarrow> error + rat list" where
  "as_numbers n cs =
     (if list_all (\<lambda>c. case c of Num r \<Rightarrow> True | _ \<Rightarrow> False) cs
      then Inr (map (\<lambda>c. case c of Num r \<Rightarrow> r | _ \<Rightarrow> 0) cs)
      else Inl (NotNumeric n))"

definition numeric_column :: "dataframe \<Rightarrow> string \<Rightarrow> error + rat list" where
  "numeric_column df n = and_then (column df n) (as_numbers n)"

text \<open>\<open>total_sales = sales["total_amount"].sum() if not sales.empty else 0\<close>\<close>

definition total_sales :: "dataframe \<Rightarrow> error + rat" where
  "total_sales sales =
     (if \<not> empty sales
      then and_then (numeric_column sales ''total_amount'') (\<lambda>xs. Inr (sum_list xs))
      else Inr 0)"


subsection \<open>Sorting and grouping\<close>

text \<open>
  \<open>sort_values\<close> is called without \<open>kind\<close>, so the rows are ordered by the library's
  default \<open>argsort\<close> (\<open>kind="quicksort"\<close>), which is taken as a parameter: a function from
  the keys to the order of their positions. The library promises that the positions are
  a permutation and that the keys come out ascending; it promises nothing for equal keys.
\<close>

definition argsort_contract :: "(rat list \<Rightarrow> nat list) \<Rightarrow> bool" where
  "argsort_contract argsort =
     (\<forall>ks. distinct (argsort ks) \<and> set (argsort ks) = {..<length ks}
        \<and> sorted (map (\<lambda>i. ks ! i) (argsort ks)))"

text \<open>
  \<open>df.sort_values(by, ascending=...)\<close>: ascending takes the rows in the order of
  \<open>argsort\<close>; descending reverses the keys, sorts them ascending and reverses the outcome.
\<close>

definition take_rows :: "cell list list \<Rightarrow> nat list \<Rightarrow> cell list list" where
  "take_rows rs idx = map (\<lambda>i. rs ! i) idx"

definition sort_values ::
  "(rat list \<Rightarrow> nat list) \<Rightarrow> string \<Rightarrow> bool \<Rightarrow> dataframe \<Rightarrow> error + dataframe" where
  "sort_values argsort by ascending df =
     and_then (numeric_column df by) (\<lambda>ks.
       Inr (df\<lparr>rows :=
         (if ascending then take_rows (rows df) (argsort ks)
          else rev (take_rows (rev (rows df)) (argsort (rev ks))))\<rparr>))"

definition head :: "nat \<Rightarrow> dataframe \<Rightarrow> dataframe" where
  "head n df = df\<lparr>rows := take n (rows df)\<rparr>"

text \<open>
  \<open>groupby(key)[val].sum()\<close> on a list of (key, value) pairs: one entry per distinct key,
  the keys ascending (in the order \<open>rank\<close> gives them), each with the sum of its values.
\<close>

definition groupby_sum :: "('k \<Rightarrow> 'o::linorder) \<Rightarrow> ('k \<times> rat) list \<Rightarrow> ('k \<times> rat) list" where
  "groupby_sum rank kvs =
     map (\<lambda>k. (k, sum_list (map snd (filter (\<lambda>kv. fst kv = k) kvs))))
       (sort_key rank (remdups (map fst kvs)))"

text \<open>
  The order of group keys that are cells: numbers by value, strings by code point,
  timestamps by time; between kinds, numbers first.
\<close>

definition cell_rank :: "cell \<Rightarrow> nat \<times> rat \<times> string \<times> timestamp" where
  "cell_rank c =
     (case c of
        Num r \<Rightarrow> (0, r, [], (0, 0, 0, 0))
      | Str s \<Rightarrow> (1, 0, s, (0, 0, 0, 0))
      | Date d \<Rightarrow> (2, 0, [], d)
      | Missing \<Rightarrow> (3, 0, [], (0, 0, 0, 0)))"

text \<open>
  \<open>df.groupby(key)[val].sum().reset_index()\<close>: rows whose key is missing belong to no
  group; the outcome has the two columns \<open>key\<close> and \<open>val\<close>.
\<close>

definition groupby_sum_frame :: "string \<Rightarrow> string \<Rightarrow> dataframe \<Rightarrow> error + dataframe" where
  "groupby_sum_frame key val df =
     and_then (column df key) (\<lambda>ks.
     and_then (numeric_column df val) (\<lambda>vs.
       Inr \<lparr>columns = [key, val],
            rows = map (\<lambda>(k, v). [k, Num v])
                     (groupby_sum cell_rank (filter (\<lambda>kv. fst kv \<noteq> Missing) (zip ks vs)))\<rparr>))"

subsection \<open>Monthly sales trend (lines 83--92)\<close>

text \<open>\<open>dt.to_period('M').dt.to_timestamp()\<close>: the first instant of the month.\<close>

definition month_start :: "timestamp \<Rightarrow> timestamp" where
  "month_start t = (case t of (y, m, d, tod) \<Rightarrow> (y, m, 1, 0))"

text \<open>\<open>df.dropna(subset=[name])\<close>\<close>

definition dropna_subset :: "string \<Rightarrow> dataframe \<Rightarrow> error + dataframe" where
  "dropna_subset n df =
     and_then (column_index df n) (\<lambda>i.
       Inr (df\<lparr>rows := filter (\<lambda>r. cell_at r i \<noteq> Missing) (rows df)\<rparr>))"

text \<open>The \<open>.dt\<close> accessor needs timestamps.\<close>

definition as_dates :: "string \<Rightarrow> cell list \<Rightarrow> error + timestamp list" where
  "as_dates n cs =
     (if list_all (\<lambda>c. case c of Date d \<Rightarrow> True | _ \<Rightarrow> False) cs
      then Inr (map (\<lambda>c. case c of Date d \<Rightarrow> d | _ \<Rightarrow> (0, 0, 0, 0)) cs)
      else Inl (NotDatetime n))"

text \<open>
  \<open>s.rolling(n, min_periods=mp).mean()\<close>: at position \<open>i\<close> the window is the last \<open>n\<close>
  values up to and including \<open>i\<close>; \<open>None\<close> (NaN) when it holds fewer than \<open>mp\<close> values.
\<close>

definition rolling_mean :: "nat \<Rightarrow> nat \<Rightarrow> rat list \<Rightarrow> rat option list" where
  "rolling_mean n mp vs =
     map (\<lambda>i. let window = drop (Suc i - n) (take (Suc i) vs)
              in if mp \<le> length window \<and> window \<noteq> []
                 then Some (sum_list window / of_nat (length window)) else None)
       [0..<length vs]"

text \<open>
  The outcome lists (sale\_month, total\_amount, ma3); \<open>None\<close> is the branch
  "No sales data available to plot."
\<close>

definition monthly :: "dataframe \<Rightarrow> error + (timestamp \<times> rat \<times> rat option) list option" where
  "monthly sales =
     (if \<not> empty sales then
        and_then (dropna_subset ''sale_date'' sales) (\<lambda>df_sales.
        and_then (column df_sales ''sale_date'') (\<lambda>ds.
        and_then (as_dates ''sale_date'' ds) (\<lambda>dates.
        and_then (numeric_column df_sales ''total_amount'') (\<lambda>amounts.
          let sale_month = map month_start dates;
              monthly = groupby_sum (\<lambda>t. t) (zip sale_month amounts);
              ma3 = rolling_mean 3 1 (map snd monthly)
          in Inr (Some (zip (map fst monthly) (zip (map snd monthly) ma3)))))))
      else Inr None)"

subsection \<open>Top customers and top products (lines 102--105 and 113--116)\<close>

text \<open>
  \<open>left.merge(right, on=key, how="left")\<close>: every left row, in order, once per right row
  with the same key, or once with missing cells when there is none. The columns are the
  left ones, then the right ones without the key; a label on both sides gets \<open>_x\<close> and \<open>_y\<close>.
\<close>

definition drop_nth :: "nat \<Rightarrow> 'a list \<Rightarrow> 'a list" where
  "drop_nth j xs = take j xs @ drop (Suc j) xs"

definition merge_left :: "string \<Rightarrow> dataframe \<Rightarrow> dataframe \<Rightarrow> error + dataframe" where
  "merge_left key left right =
     and_then (column_index left key) (\<lambda>i.
     and_then (column_index right key) (\<lambda>j.
       let others_left = drop_nth i (columns left);
           others_right = drop_nth j (columns right)
       in Inr \<lparr>columns =
                 map (\<lambda>c. if c \<noteq> key \<and> c \<in> set others_right then c @ ''_x'' else c)
                   (columns left)
                 @ map (\<lambda>c. if c \<in> set others_left then c @ ''_y'' else c) others_right,
               rows = concat (map (\<lambda>l.
                 let matches = filter (\<lambda>r. cell_at r j = cell_at l i) (rows right)
                 in if matches = [] then [l @ replicate (length others_right) Missing]
                    else map (\<lambda>r. l @ drop_nth j r) matches) (rows left))\<rparr>))"

text \<open>\<open>None\<close> is the branch "Customers or sales data missing."\<close>

definition top_n ::
  "(rat list \<Rightarrow> nat list) \<Rightarrow> string \<Rightarrow> dataframe \<Rightarrow> dataframe \<Rightarrow> error + dataframe option" where
  "top_n argsort key sales other =
     (if \<not> empty sales \<and> \<not> empty other then
        and_then (groupby_sum_frame key ''total_amount'' sales) (\<lambda>grouped.
        and_then (merge_left key grouped other) (\<lambda>merged.
        and_then (sort_values argsort ''total_amount'' False merged) (\<lambda>sorted_frame.
          Inr (Some (head 10 sorted_frame)))))
      else Inr None)"

definition top_cust ::
  "(rat list \<Rightarrow> nat list) \<Rightarrow> dataframe \<Rightarrow> dataframe \<Rightarrow> error + dataframe option" where
  "top_cust argsort sales customers = top_n argsort ''customer_id'' sales customers"

definition top_prod ::
  "(rat list \<Rightarrow> nat list) \<Rightarrow> dataframe \<Rightarrow> dataframe \<Rightarrow> error + dataframe option" where
  "top_prod argsort sales inventory = top_n argsort ''product_id'' sales inventory"

subsection \<open>Low stock (lines 124--125)\<close>

text \<open>\<open>df[mask]\<close>: the rows whose mask entry is true.\<close>

definition select_rows :: "bool list \<Rightarrow> dataframe \<Rightarrow> dataframe" where
  "select_rows keep df = df\<lparr>rows := map snd (filter fst (zip keep (rows df)))\<rparr>"

text \<open>\<open>None\<close> is the branch "Inventory data missing."\<close>

definition low_stock :: "(rat list \<Rightarrow> nat list) \<Rightarrow> dataframe \<Rightarrow> error + dataframe option" where
  "low_stock argsort inventory =
     (if \<not> empty inventory then
        and_then (numeric_column inventory ''quantity_in_stock'') (\<lambda>qs.
        and_then (sort_values argsort ''quantity_in_stock'' True
                    (select_rows (map (\<lambda>q. q < 100) qs) inventory)) (\<lambda>sorted_frame.
          Inr (Some sorted_frame)))
      else Inr None)"

subsection \<open>Quality checks (lines 140--152)\<close>

text \<open>
  \<open>df[[n1, n2]]\<close>: every column carrying one of the labels, in the order of the labels;
  \<open>KeyError\<close> when a label is absent.
\<close>

definition select_columns :: "string list \<Rightarrow> dataframe \<Rightarrow> error + dataframe" where
  "select_columns names df =
     (case filter (\<lambda>n. n \<notin> set (columns df)) names of
        n # _ \<Rightarrow> Inl (KeyError n)
      | [] \<Rightarrow>
          let idx = concat (map (\<lambda>n. positions n (columns df)) names)
          in Inr \<lparr>columns = map (\<lambda>i. columns df ! i) idx,
                  rows = map (\<lambda>r. map (cell_at r) idx) (rows df)\<rparr>)"

text \<open>Button 2; \<open>None\<close> is the branch "Need both sales and customers data."\<close>

definition missing :: "dataframe \<Rightarrow> dataframe \<Rightarrow> error + dataframe option" where
  "missing sales customers =
     (if \<not> empty sales \<and> \<not> empty customers then
        and_then (column sales ''customer_id'') (\<lambda>ks.
        and_then (column customers ''customer_id'') (\<lambda>cs.
        and_then (select_columns [''sale_id'', ''customer_id'']
                    (select_rows (map (\<lambda>k. k \<notin> set cs) ks) sales)) (\<lambda>m.
          Inr (Some m))))
      else Inr None)"

text \<open>Button 3: no guard on \<open>sales.empty\<close>.\<close>

definition neg :: "dataframe \<Rightarrow> error + dataframe" where
  "neg sales =
     and_then (numeric_column sales ''total_amount'') (\<lambda>xs.
       select_columns [''sale_id'', ''total_amount'']
         (select_rows (map (\<lambda>x. x < 0) xs) sales))"

subsection \<open>Instances of the library parameters\<close>

text \<open>
  For concrete runs: numbers written as an optional minus sign and decimal digits, dates
  written \<open>YYYY-MM-DD\<close>, and a stable \<open>argsort\<close> (insertion sort on the positions).
\<close>

definition digit :: "char \<Rightarrow> nat option" where
  "digit c = (let n = (of_char c :: nat) in if 48 \<le> n \<and> n \<le> 57 then Some (n - 48) else None)"

fun digits :: "nat \<Rightarrow> string \<Rightarrow> nat option" where
  "digits acc [] = Some acc"
| "digits acc (c # cs) = (case digit c of None \<Rightarrow> None | Some d \<Rightarrow> digits (10 * acc + d) cs)"

definition literal_number :: "string \<Rightarrow> rat option" where
  "literal_number s =
     (case s of
        [] \<Rightarrow> None
      | c # cs \<Rightarrow>
          if c = CHR ''-'' then (if cs = [] then None else map_option (\<lambda>n. - of_nat n) (digits 0 cs))
          else map_option of_nat (digits 0 s))"

definition literal_date :: "string \<Rightarrow> timestamp option" where
  "literal_date s =
     (if length s = 10 \<and> s ! 4 = CHR ''-'' \<and> s ! 7 = CHR ''-'' then
        (case (digits 0 (take 4 s), digits 0 (take 2 (drop 5 s)), digits 0 (drop 8 s)) of
           (Some y, Some m, Some d) \<Rightarrow>
             if 1 \<le> m \<and> m \<le> 12 \<and> 1 \<le> d \<and> d \<le> 31 then Some (int y, m, d, 0) else None
         | _ \<Rightarrow> None)
      else None)"

definition literal_parsers :: parsers where
  "literal_parsers =
     \<lparr>parse_numeric = literal_number, parse_datetime = literal_date,
      datetime_of_number = (\<lambda>r. None), number_of_datetime = (\<lambda>t. None)\<rparr>"

definition stable_argsort :: "rat list \<Rightarrow> nat list" where
  "stable_argsort ks = sort_key (\<lambda>i. ks ! i) [0..<length ks]"

subsection \<open>Auxiliary notions for the proofs\<close>

text \<open>A coercion has settled on a column when applying it again changes no cell.\<close>

definition settled :: "(cell \<Rightarrow> cell) \<Rightarrow> string \<Rightarrow> dataframe \<Rightarrow> bool" where
  "settled f n df =
     (n \<in> set (columns df) \<longrightarrow>
       (\<exists>i. column_index df n = Inr i
          \<and> (\<forall>r \<in> set (rows df). i < length r \<longrightarrow> f (r ! i) = r ! i)))"


text \<open>What the numeric coercion of \<open>load_data\<close> makes of a raw cell.\<close>

definition coerced_to_zero :: "parsers \<Rightarrow> cell \<Rightarrow> cell \<Rightarrow> bool" where
  "coerced_to_zero P raw out =
     (case raw of
        Str s \<Rightarrow> (case parse_numeric P s of None \<Rightarrow> out = Num 0 | Some r \<Rightarrow> out = Num r)
      | Num r \<Rightarrow> out = Num r
      | Missing \<Rightarrow> out = Num 0
      | Date d \<Rightarrow> (case number_of_datetime P d of None \<Rightarrow> out = Num 0 | Some r \<Rightarrow> out = Num r))"

section \<open>Normalization\<close>


lemma dropWhile_fix_iff: "dropWhile P xs = xs \<longleftrightarrow> (xs = [] \<or> \<not> P (hd xs))"
  by (cases xs) (auto dest: arg_cong[where f=length] simp: dropWhile_eq_Cons_conv)

lemma strip_idem: "strip (strip s) = strip s"
proof -
  define t where "t = dropWhile is_space s"
  define b where "b = dropWhile is_space (rev t)"
  have t: "t = [] \<or> \<not> is_space (hd t)" unfolding t_def by (metis dropWhile_eq_Nil_conv hd_dropWhile)
  obtain a where ab: "rev t = a @ b" unfolding b_def by (metis takeWhile_dropWhile_id)
  then have "t = rev b @ rev a" by (metis rev_append rev_rev_ident)
  with t have "rev b = [] \<or> \<not> is_space (hd (rev b))" by (cases "rev b") auto
  then have 1: "dropWhile is_space (rev b) = rev b" by (simp add: dropWhile_fix_iff)
  have 2: "dropWhile is_space b = b" unfolding b_def by simp
  show ?thesis unfolding strip_def using 1 2 by (simp add: t_def[symmetric] b_def[symmetric])
qed

lemma coerce_column_columns: "coerce_column f n df = Inr df' \<Longrightarrow> columns df' = columns df"
  by (auto simp: coerce_column_def split: if_splits sum.splits)

lemma settled_fixed: "settled f n df \<Longrightarrow> coerce_column f n df = Inr df"
proof -
  assume s: "settled f n df"
  show ?thesis
  proof (cases "n \<in> set (columns df)")
    case False then show ?thesis by (simp add: coerce_column_def)
  next
    case True
    with s obtain i where i: "column_index df n = Inr i"
      and fx: "\<forall>r \<in> set (rows df). i < length r \<longrightarrow> f (r ! i) = r ! i" by (auto simp: settled_def)
    have "map (\<lambda>r. r[i := f (cell_at r i)]) (rows df) = rows df"
      using fx by (intro map_idI) (auto simp: cell_at_def list_update_beyond)
    then show ?thesis using True i by (simp add: coerce_column_def)
  qed
qed

lemma column_index_cong: "columns df' = columns df \<Longrightarrow> column_index df' n = column_index df n"
  by (simp add: column_index_def)

lemma coerce_settles:
  assumes "\<And>c. f (f c) = f c" "coerce_column f n df = Inr df'"
  shows "settled f n df'"
  using assms(2) assms(1)
  by (auto simp: coerce_column_def settled_def column_index_def cell_at_def split: if_splits sum.splits list.splits)

lemma column_index_positions: "column_index df n = Inr i \<Longrightarrow> i < length (columns df) \<and> columns df ! i = n"
proof -
  assume "column_index df n = Inr i"
  then have "positions n (columns df) = [i]" by (auto simp: column_index_def split: list.splits)
  then have "i \<in> set (positions n (columns df))" by simp
  then show ?thesis by (auto simp: positions_def)
qed

lemma settled_preserved:
  assumes "settled f n df" "n \<noteq> m" "coerce_column g m df = Inr df'"
  shows "settled f n df'"
proof (cases "m \<in> set (columns df)")
  case False with assms show ?thesis by (simp add: coerce_column_def)
next
  case True
  with assms(3) obtain j where j: "column_index df m = Inr j"
    and df': "df' = df\<lparr>rows := map (\<lambda>r. r[j := g (cell_at r j)]) (rows df)\<rparr>"
    by (auto simp: coerce_column_def split: sum.splits)
  show ?thesis unfolding settled_def
  proof
    assume "n \<in> set (columns df')"
    then have "n \<in> set (columns df)" by (simp add: df')
    with assms(1) obtain i where i: "column_index df n = Inr i"
      and fx: "\<forall>r \<in> set (rows df). i < length r \<longrightarrow> f (r ! i) = r ! i" by (auto simp: settled_def)
    have "i \<noteq> j" using column_index_positions[OF i] column_index_positions[OF j] assms(2) by auto
    then have "\<forall>r \<in> set (rows df'). i < length r \<longrightarrow> f (r ! i) = r ! i"
      using fx by (auto simp: df')
    moreover have "column_index df' n = Inr i" using i by (simp add: df' column_index_def)
    ultimately show "\<exists>i. column_index df' n = Inr i \<and> (\<forall>r \<in> set (rows df'). i < length r \<longrightarrow> f (r ! i) = r ! i)" by blast
  qed
qed


lemma to_datetime_idem: "to_datetime P (to_datetime P c) = to_datetime P c"
  by (auto simp: to_datetime_def split: cell.splits option.splits)

lemma fill_numeric_idem: "(fillna 0 \<circ> to_numeric P) ((fillna 0 \<circ> to_numeric P) c) = (fillna 0 \<circ> to_numeric P) c"
  by (auto simp: to_numeric_def fillna_def split: cell.splits option.splits)

lemma strip_columns_idem: "strip_columns (strip_columns df) = strip_columns df"
  by (simp add: strip_columns_def strip_idem)

lemma strip_columns_fixed: "strip_columns df = df \<longleftrightarrow> map strip (columns df) = columns df"
proof
  assume "strip_columns df = df"
  then have "columns (strip_columns df) = columns df" by simp
  then show "map strip (columns df) = columns df" by (simp add: strip_columns_def)
next
  assume "map strip (columns df) = columns df"
  then show "strip_columns df = df" by (simp add: strip_columns_def)
qed

lemma coerce_column_stripped:
  "coerce_column f n df = Inr df' \<Longrightarrow> strip_columns df = df \<Longrightarrow> strip_columns df' = df'"
  by (simp add: strip_columns_fixed coerce_column_columns)

lemma and_then_Inr: "and_then m f = Inr y \<longleftrightarrow> (\<exists>x. m = Inr x \<and> f x = Inr y)"
  by (cases m) (auto simp: and_then_def)

lemma coerce_column_rows_length: "coerce_column f n df = Inr df' \<Longrightarrow> length (rows df') = length (rows df)"
  by (auto simp: coerce_column_def split: if_splits sum.splits)

lemma coerce_column_rectangular: "coerce_column f n df = Inr df' \<Longrightarrow> rectangular df \<Longrightarrow> rectangular df'"
  by (auto simp: coerce_column_def rectangular_def list_all_iff split: if_splits sum.splits)

lemma coerce_column_other:
  assumes "coerce_column f m df = Inr df'" "column_index df n = Inr k" "n \<noteq> m"
  shows "series df' k = series df k"
proof (cases "m \<in> set (columns df)")
  case False with assms show ?thesis by (simp add: coerce_column_def)
next
  case True
  with assms(1) obtain j where j: "column_index df m = Inr j"
    and df': "df' = df\<lparr>rows := map (\<lambda>r. r[j := f (cell_at r j)]) (rows df)\<rparr>"
    by (auto simp: coerce_column_def split: sum.splits)
  have "k \<noteq> j" using column_index_positions[OF assms(2)] column_index_positions[OF j] assms(3) by auto
  then show ?thesis by (simp add: df' series_def cell_at_def)
qed

lemma coerce_column_same:
  assumes "coerce_column f n df = Inr df'" "column_index df n = Inr k" "rectangular df"
  shows "series df' k = map f (series df k)"
proof -
  have k: "k < length (columns df)" "columns df ! k = n" using column_index_positions[OF assms(2)] by auto
  then have "n \<in> set (columns df)" by (metis nth_mem)
  with assms(1,2) have df': "df' = df\<lparr>rows := map (\<lambda>r. r[k := f (cell_at r k)]) (rows df)\<rparr>"
    by (auto simp: coerce_column_def)
  have "\<forall>r \<in> set (rows df). k < length r" using assms(3) k(1) by (auto simp: rectangular_def list_all_iff)
  then show ?thesis by (simp add: df' series_def cell_at_def)
qed

lemma coerced_fill_numeric: "coerced_to_zero P x ((fillna 0 \<circ> to_numeric P) x)"
  by (simp add: coerced_to_zero_def fillna_def to_numeric_def split: cell.splits option.splits)

lemma series_strip_columns: "series (strip_columns df) k = series df k"
  by (simp add: series_def strip_columns_def)

lemma rectangular_strip_columns: "rectangular (strip_columns df) = rectangular df"
  by (simp add: rectangular_def strip_columns_def)

lemma normalize_steps:
  assumes "normalize P (c0, i0, s0) = Inr (c, i, s)"
  obtains s1 s2 i1 where
    "coerce_column (to_datetime P) ''sale_date'' (strip_columns s0) = Inr s1"
    "coerce_column (to_datetime P) ''join_date'' (strip_columns c0) = Inr c"
    "coerce_column (fillna 0 \<circ> to_numeric P) ''total_amount'' s1 = Inr s2"
    "coerce_column (fillna 0 \<circ> to_numeric P) ''quantity'' s2 = Inr s"
    "coerce_column (fillna 0 \<circ> to_numeric P) ''price_per_unit'' (strip_columns i0) = Inr i1"
    "coerce_column (fillna 0 \<circ> to_numeric P) ''quantity_in_stock'' i1 = Inr i"
  using assms unfolding normalize_def Let_def prod.case and_then_Inr by auto


section \<open>Claims about normalization\<close>

text \<open>
  Claim C9. The normalization pass is idempotent: when it succeeds on a triple of
  tables, applying it to its own outcome succeeds and returns that outcome unchanged
  (labels already trimmed, dates already timestamps or missing, numbers already numbers).
\<close>

theorem normalize_idempotent:
  assumes "normalize P raw = Inr out"
  shows "normalize P out = Inr out"
proof -
  obtain c0 i0 s0 where raw: "raw = (c0, i0, s0)" by (cases raw) auto
  let ?D = "to_datetime P" and ?N = "fillna 0 \<circ> to_numeric P"
  from assms obtain s1 c1 s2 s3 i1 i2 where
    s1: "coerce_column ?D ''sale_date'' (strip_columns s0) = Inr s1" and
    c1: "coerce_column ?D ''join_date'' (strip_columns c0) = Inr c1" and
    s2: "coerce_column ?N ''total_amount'' s1 = Inr s2" and
    s3: "coerce_column ?N ''quantity'' s2 = Inr s3" and
    i1: "coerce_column ?N ''price_per_unit'' (strip_columns i0) = Inr i1" and
    i2: "coerce_column ?N ''quantity_in_stock'' i1 = Inr i2" and
    out: "out = (c1, i2, s3)"
    unfolding raw normalize_def Let_def prod.case and_then_Inr by auto
  have sc: "strip_columns c1 = c1"
    using coerce_column_stripped[OF c1] by (simp add: strip_columns_idem)
  have si: "strip_columns i2 = i2"
    using coerce_column_stripped[OF i2] coerce_column_stripped[OF i1] by (simp add: strip_columns_idem)
  have ss: "strip_columns s3 = s3"
    using coerce_column_stripped[OF s3] coerce_column_stripped[OF s2] coerce_column_stripped[OF s1]
    by (simp add: strip_columns_idem)
  have a: "settled ?D ''sale_date'' s3"
    using settled_preserved[OF settled_preserved[OF coerce_settles[OF to_datetime_idem s1] _ s2] _ s3]
    by simp
  have b: "settled ?D ''join_date'' c1" by (rule coerce_settles[OF to_datetime_idem c1])
  have c: "settled ?N ''total_amount'' s3"
    using settled_preserved[OF coerce_settles[OF fill_numeric_idem s2] _ s3] by simp
  have d: "settled ?N ''quantity'' s3" by (rule coerce_settles[OF fill_numeric_idem s3])
  have e: "settled ?N ''price_per_unit'' i2"
    using settled_preserved[OF coerce_settles[OF fill_numeric_idem i1] _ i2] by simp
  have f: "settled ?N ''quantity_in_stock'' i2" by (rule coerce_settles[OF fill_numeric_idem i2])
  show ?thesis
    unfolding out normalize_def Let_def prod.case sc si ss
    by (simp add: and_then_def settled_fixed[OF a] settled_fixed[OF b] settled_fixed[OF c]
        settled_fixed[OF d] settled_fixed[OF e] settled_fixed[OF f])
qed



theorem normalize_idempotent_witness:
  "normalize literal_parsers
     (\<lparr>columns = ['' customer_id'', ''join_date ''], rows = [[Num 1, Str ''2024-01-05''], [Num 2, Str ''soon'']]\<rparr>,
      \<lparr>columns = [''product_id'', ''quantity_in_stock''], rows = [[Num 1, Str ''n/a'']]\<rparr>,
      \<lparr>columns = [''sale_date'', '' total_amount''], rows = [[Str ''2024-03-09'', Str ''-5'']]\<rparr>)
   = Inr (\<lparr>columns = [''customer_id'', ''join_date''], rows = [[Num 1, Date (2024, 1, 5, 0)], [Num 2, Missing]]\<rparr>,
      \<lparr>columns = [''product_id'', ''quantity_in_stock''], rows = [[Num 1, Num 0]]\<rparr>,
      \<lparr>columns = [''sale_date'', ''total_amount''], rows = [[Date (2024, 3, 9, 0), Num (- 5)]]\<rparr>)
   \<and> normalize literal_parsers
     (\<lparr>columns = [''customer_id'', ''join_date''], rows = [[Num 1, Date (2024, 1, 5, 0)], [Num 2, Missing]]\<rparr>,
      \<lparr>columns = [''product_id'', ''quantity_in_stock''], rows = [[Num 1, Num 0]]\<rparr>,
      \<lparr>columns = [''sale_date'', ''total_amount''], rows = [[Date (2024, 3, 9, 0), Num (- 5)]]\<rparr>)
   = Inr (\<lparr>columns = [''customer_id'', ''join_date''], rows = [[Num 1, Date (2024, 1, 5, 0)], [Num 2, Missing]]\<rparr>,
      \<lparr>columns = [''product_id'', ''quantity_in_stock''], rows = [[Num 1, Num 0]]\<rparr>,
      \<lparr>columns = [''sale_date'', ''total_amount''], rows = [[Date (2024, 3, 9, 0), Num (- 5)]]\<rparr>)"
proof -
  have h: "normalize literal_parsers
     (\<lparr>columns = ['' customer_id'', ''join_date ''], rows = [[Num 1, Str ''2024-01-05''], [Num 2, Str ''soon'']]\<rparr>,
      \<lparr>columns = [''product_id'', ''quantity_in_stock''], rows = [[Num 1, Str ''n/a'']]\<rparr>,
      \<lparr>columns = [''sale_date'', '' total_amount''], rows = [[Str ''2024-03-09'', Str ''-5'']]\<rparr>)
   = Inr (\<lparr>columns = [''customer_id'', ''join_date''], rows = [[Num 1, Date (2024, 1, 5, 0)], [Num 2, Missing]]\<rparr>,
      \<lparr>columns = [''product_id'', ''quantity_in_stock''], rows = [[Num 1, Num 0]]\<rparr>,
      \<lparr>columns = [''sale_date'', ''total_amount''], rows = [[Date (2024, 3, 9, 0), Num (- 5)]]\<rparr>)"
    by code_simp
  from normalize_idempotent [OF h] h show ?thesis by simp
qed


lemma normalized_numeric_series:
  assumes "coerce_column (fillna 0 \<circ> to_numeric P) n df = Inr df'" "rectangular df"
    "column_index df' n = Inr k"
  shows "list_all2 (coerced_to_zero P) (series df k) (series df' k)"
proof -
  have ci: "column_index df n = Inr k"
    using assms(3) column_index_cong[OF coerce_column_columns[OF assms(1)]] by simp
  have "series df' k = map (fillna 0 \<circ> to_numeric P) (series df k)"
    by (rule coerce_column_same[OF assms(1) ci assms(2)])
  then show ?thesis
    by (simp add: list_all2_map2 list_all2_same coerced_fill_numeric del: o_apply)
qed

lemma column_index_after:
  "coerce_column f m df = Inr df' \<Longrightarrow> column_index df' n = column_index df n"
  by (rule column_index_cong[OF coerce_column_columns])

text \<open>
  Claim C3. Normalization coerces every cell of the numeric columns \<open>total_amount\<close>,
  \<open>quantity\<close>, \<open>price_per_unit\<close> and \<open>quantity_in_stock\<close> to a number, an unparseable
  value to zero; no row is dropped and no missing marker remains. For the
  \<open>total_amount\<close> inputs "10", "abc", "-5" the column becomes 10, 0, -5 and the total
  revenue is 5.
\<close>

theorem numeric_coercion_to_zero:
  assumes norm: "normalize P (c0, i0, s0) = Inr (c, i, s)"
    and rs: "rectangular s0" and ri: "rectangular i0"
  shows "length (rows s) = length (rows s0) \<and> length (rows i) = length (rows i0)
    \<and> (\<forall>n \<in> set [''total_amount'', ''quantity'']. \<forall>k. column_index s n = Inr k \<longrightarrow>
          list_all2 (coerced_to_zero P) (series s0 k) (series s k))
    \<and> (\<forall>n \<in> set [''price_per_unit'', ''quantity_in_stock'']. \<forall>k. column_index i n = Inr k \<longrightarrow>
          list_all2 (coerced_to_zero P) (series i0 k) (series i k))
    \<and> (parse_numeric P ''10'' = Some 10 \<and> parse_numeric P ''abc'' = None
         \<and> parse_numeric P ''-5'' = Some (- 5) \<longrightarrow>
        (\<exists>s'. normalize P (DataFrame, DataFrame,
                 \<lparr>columns = [''total_amount''], rows = [[Str ''10''], [Str ''abc''], [Str ''-5'']]\<rparr>)
               = Inr (DataFrame, DataFrame, s')
             \<and> column s' ''total_amount'' = Inr [Num 10, Num 0, Num (- 5)]
             \<and> length (rows s') = 3
             \<and> total_sales s' = Inr 5))"
proof -
  let ?N = "fillna 0 \<circ> to_numeric P"
  from norm obtain s1 s2 i1 where
    s1: "coerce_column (to_datetime P) ''sale_date'' (strip_columns s0) = Inr s1" and
    s2: "coerce_column ?N ''total_amount'' s1 = Inr s2" and
    s3: "coerce_column ?N ''quantity'' s2 = Inr s" and
    i1: "coerce_column ?N ''price_per_unit'' (strip_columns i0) = Inr i1" and
    i2: "coerce_column ?N ''quantity_in_stock'' i1 = Inr i"
    by (rule normalize_steps)
  have r1: "rectangular s1" using coerce_column_rectangular[OF s1] rs by (simp add: rectangular_strip_columns)
  have r2: "rectangular s2" by (rule coerce_column_rectangular[OF s2 r1])
  have q1: "rectangular i1" using coerce_column_rectangular[OF i1] ri by (simp add: rectangular_strip_columns)
  have len: "length (rows s) = length (rows s0)" "length (rows i) = length (rows i0)"
    using coerce_column_rows_length[OF s1] coerce_column_rows_length[OF s2]
      coerce_column_rows_length[OF s3] coerce_column_rows_length[OF i1]
      coerce_column_rows_length[OF i2]
    by (simp_all add: strip_columns_def)
  have ta: "list_all2 (coerced_to_zero P) (series s0 k) (series s k)"
    if k: "column_index s ''total_amount'' = Inr k" for k
  proof -
    have k2: "column_index s2 ''total_amount'' = Inr k" using k column_index_after[OF s3] by simp
    then have k1: "column_index s1 ''total_amount'' = Inr k" using column_index_after[OF s2] by simp
    then have k0: "column_index (strip_columns s0) ''total_amount'' = Inr k" using column_index_after[OF s1] by simp
    have "series s k = series s2 k" by (rule coerce_column_other[OF s3 k2]) simp
    moreover have "series s1 k = series s0 k"
      using coerce_column_other[OF s1 k0] by (simp add: series_strip_columns)
    moreover have "list_all2 (coerced_to_zero P) (series s1 k) (series s2 k)"
      by (rule normalized_numeric_series[OF s2 r1 k2])
    ultimately show ?thesis by simp
  qed
  have qu: "list_all2 (coerced_to_zero P) (series s0 k) (series s k)"
    if k: "column_index s ''quantity'' = Inr k" for k
  proof -
    have k2: "column_index s2 ''quantity'' = Inr k" using k column_index_after[OF s3] by simp
    then have k1: "column_index s1 ''quantity'' = Inr k" using column_index_after[OF s2] by simp
    then have k0: "column_index (strip_columns s0) ''quantity'' = Inr k" using column_index_after[OF s1] by simp
    have "series s2 k = series s1 k" by (rule coerce_column_other[OF s2 k1]) simp
    moreover have "series s1 k = series s0 k"
      using coerce_column_other[OF s1 k0] by (simp add: series_strip_columns)
    moreover have "list_all2 (coerced_to_zero P) (series s2 k) (series s k)"
      by (rule normalized_numeric_series[OF s3 r2 k])
    ultimately show ?thesis by simp
  qed
  have pp: "list_all2 (coerced_to_zero P) (series i0 k) (series i k)"
    if k: "column_index i ''price_per_unit'' = Inr k" for k
  proof -
    have k1: "column_index i1 ''price_per_unit'' = Inr k" using k column_index_after[OF i2] by simp
    have "series i k = series i1 k" by (rule coerce_column_other[OF i2 k1]) simp
    moreover have "list_all2 (coerced_to_zero P) (series (strip_columns i0) k) (series i1 k)"
      using normalized_numeric_series[OF i1 _ k1] ri by (simp add: rectangular_strip_columns)
    ultimately show ?thesis by (simp add: series_strip_columns)
  qed
  have qs: "list_all2 (coerced_to_zero P) (series i0 k) (series i k)"
    if k: "column_index i ''quantity_in_stock'' = Inr k" for k
  proof -
    have k1: "column_index i1 ''quantity_in_stock'' = Inr k" using k column_index_after[OF i2] by simp
    then have k0: "column_index (strip_columns i0) ''quantity_in_stock'' = Inr k" using column_index_after[OF i1] by simp
    have "series i1 k = series i0 k"
      using coerce_column_other[OF i1 k0] by (simp add: series_strip_columns)
    moreover have "list_all2 (coerced_to_zero P) (series i1 k) (series i k)"
      by (rule normalized_numeric_series[OF i2 q1 k])
    ultimately show ?thesis by simp
  qed
  have ex: "\<exists>s'. normalize P (DataFrame, DataFrame,
                 \<lparr>columns = [''total_amount''], rows = [[Str ''10''], [Str ''abc''], [Str ''-5'']]\<rparr>)
               = Inr (DataFrame, DataFrame, s')
             \<and> column s' ''total_amount'' = Inr [Num 10, Num 0, Num (- 5)]
             \<and> length (rows s') = 3
             \<and> total_sales s' = Inr 5"
    if p: "parse_numeric P ''10'' = Some 10" "parse_numeric P ''abc'' = None"
      "parse_numeric P ''-5'' = Some (- 5)"
  proof -
    have "normalize P (DataFrame, DataFrame,
                 \<lparr>columns = [''total_amount''], rows = [[Str ''10''], [Str ''abc''], [Str ''-5'']]\<rparr>)
          = Inr (DataFrame, DataFrame, \<lparr>columns = [''total_amount''], rows = [[Num 10], [Num 0], [Num (- 5)]]\<rparr>)"
      using p
      by (simp add: normalize_def Let_def DataFrame_def strip_columns_def strip_def is_space_def
          coerce_column_def column_index_def positions_def and_then_def cell_at_def
          to_numeric_def fillna_def)
    moreover have "column \<lparr>columns = [''total_amount''], rows = [[Num 10], [Num 0], [Num (- 5)]]\<rparr> ''total_amount''
       = Inr [Num 10, Num 0, Num (- 5)]"
      by (simp add: column_def column_index_def positions_def series_def cell_at_def)
    moreover have "total_sales \<lparr>columns = [''total_amount''], rows = [[Num 10], [Num 0], [Num (- 5)]]\<rparr> = Inr 5"
      by (simp add: total_sales_def empty_def numeric_column_def as_numbers_def and_then_def
          column_def column_index_def positions_def series_def cell_at_def)
    ultimately show ?thesis by simp
  qed
  show ?thesis using len ta qu pp qs ex by simp
qed


theorem numeric_coercion_to_zero_witness:
  "normalize literal_parsers
     (DataFrame,
      \<lparr>columns = [''product_id'', ''quantity_in_stock''], rows = [[Num 1, Str ''n/a'']]\<rparr>,
      \<lparr>columns = [''total_amount''], rows = [[Str ''10''], [Str ''abc''], [Str ''-5'']]\<rparr>)
   = Inr (DataFrame,
      \<lparr>columns = [''product_id'', ''quantity_in_stock''], rows = [[Num 1, Num 0]]\<rparr>,
      \<lparr>columns = [''total_amount''], rows = [[Num 10], [Num 0], [Num (- 5)]]\<rparr>)
   \<and> rectangular \<lparr>columns = [''total_amount''], rows = [[Str ''10''], [Str ''abc''], [Str ''-5'']]\<rparr>
   \<and> rectangular \<lparr>columns = [''product_id'', ''quantity_in_stock''], rows = [[Num 1, Str ''n/a'']]\<rparr>
   \<and> parse_numeric literal_parsers ''10'' = Some 10
   \<and> parse_numeric literal_parsers ''abc'' = None
   \<and> parse_numeric literal_parsers ''-5'' = Some (- 5)
   \<and> list_all2 (coerced_to_zero literal_parsers) [Str ''10'', Str ''abc'', Str ''-5''] [Num 10, Num 0, Num (- 5)]
   \<and> list_all2 (coerced_to_zero literal_parsers) [Str ''n/a''] [Num 0]
   \<and> (\<exists>s'. normalize literal_parsers (DataFrame, DataFrame,
                 \<lparr>columns = [''total_amount''], rows = [[Str ''10''], [Str ''abc''], [Str ''-5'']]\<rparr>)
               = Inr (DataFrame, DataFrame, s')
             \<and> column s' ''total_amount'' = Inr [Num 10, Num 0, Num (- 5)]
             \<and> length (rows s') = 3
             \<and> total_sales s' = Inr 5)"
proof -
  let ?rawS = "\<lparr>columns = [''total_amount''], rows = [[Str ''10''], [Str ''abc''], [Str ''-5'']]\<rparr>"
  let ?rawI = "\<lparr>columns = [''product_id'', ''quantity_in_stock''], rows = [[Num 1, Str ''n/a'']]\<rparr>"
  let ?outS = "\<lparr>columns = [''total_amount''], rows = [[Num 10], [Num 0], [Num (- 5)]]\<rparr>"
  let ?outI = "\<lparr>columns = [''product_id'', ''quantity_in_stock''], rows = [[Num 1, Num 0]]\<rparr>"
  have h: "normalize literal_parsers (DataFrame, ?rawI, ?rawS) = Inr (DataFrame, ?outI, ?outS)"
    by code_simp
  have rs: "rectangular ?rawS" and ri: "rectangular ?rawI"
    by (simp_all add: rectangular_def)
  have p: "parse_numeric literal_parsers ''10'' = Some 10"
    "parse_numeric literal_parsers ''abc'' = None"
    "parse_numeric literal_parsers ''-5'' = Some (- 5)"
    by (simp_all add: literal_parsers_def literal_number_def digit_def)
  have ks: "column_index ?outS ''total_amount'' = Inr 0"
    by (simp add: column_index_def positions_def)
  have ki: "column_index ?outI ''quantity_in_stock'' = Inr (Suc 0)"
    by (simp add: column_index_def positions_def upt_rec)
  have ss: "series ?rawS 0 = [Str ''10'', Str ''abc'', Str ''-5'']" "series ?outS 0 = [Num 10, Num 0, Num (- 5)]"
    "series ?rawI (Suc 0) = [Str ''n/a'']" "series ?outI (Suc 0) = [Num 0]"
    by (simp_all add: series_def cell_at_def)
  note inst = numeric_coercion_to_zero [OF h rs ri]
  from inst ks have a: "list_all2 (coerced_to_zero literal_parsers) (series ?rawS 0) (series ?outS 0)"
    by simp
  from inst ki have b: "list_all2 (coerced_to_zero literal_parsers) (series ?rawI (Suc 0)) (series ?outI (Suc 0))"
    by simp
  from inst p have c: "\<exists>s'. normalize literal_parsers (DataFrame, DataFrame, ?rawS) = Inr (DataFrame, DataFrame, s')
             \<and> column s' ''total_amount'' = Inr [Num 10, Num 0, Num (- 5)]
             \<and> length (rows s') = 3
             \<and> total_sales s' = Inr 5"
    by blast
  from a b show ?thesis unfolding ss using c p h rs ri by blast
qed


section \<open>Quality checks\<close>

lemma select_rows_filter:
  "map snd (filter fst (zip (map f xs) xs)) = filter f xs"
  by (induction xs) auto

lemma select_rows_by_cell:
  "select_rows (map f (series df j)) df = df\<lparr>rows := filter (\<lambda>r. f (cell_at r j)) (rows df)\<rparr>"
proof -
  have "map snd (filter fst (zip (map (\<lambda>r. f (cell_at r j)) (rows df)) (rows df)))
      = filter (\<lambda>r. f (cell_at r j)) (rows df)"
    by (rule select_rows_filter)
  then show ?thesis by (simp add: select_rows_def series_def comp_def)
qed

lemma column_index_unique:
  "column_index df n = Inr i \<Longrightarrow> positions n (columns df) = [i]"
  by (auto simp: column_index_def split: list.splits)

lemma column_index_member: "column_index df n = Inr i \<Longrightarrow> n \<in> set (columns df)"
  using column_index_positions nth_mem by metis

lemma column_Inr: "column_index df n = Inr i \<Longrightarrow> column df n = Inr (series df i)"
  by (simp add: column_def)

lemma select_two_columns:
  assumes "column_index df a = Inr i" "column_index df b = Inr j"
  shows "select_columns [a, b] df
    = Inr \<lparr>columns = [a, b], rows = map (\<lambda>r. [cell_at r i, cell_at r j]) (rows df)\<rparr>"
  using column_index_unique[OF assms(1)] column_index_unique[OF assms(2)]
    column_index_member[OF assms(1)] column_index_member[OF assms(2)]
    column_index_positions[OF assms(1)] column_index_positions[OF assms(2)]
  by (simp add: select_columns_def)

lemma column_index_rows_update [simp]:
  "column_index (df\<lparr>rows := rs\<rparr>) n = column_index df n"
  by (simp add: column_index_def)

text \<open>
  Claim C6. The orphaned-sales check lists, in the order of the sales table, the
  (sale\_id, customer\_id) pairs of exactly the sales rows whose customer\_id occurs
  nowhere in the customer\_id column of the customers table; when the sales or the
  customers table is empty the check is skipped (the outcome is the "need both" message,
  not an empty table). With customers 1 and 2 and the sale (9, 3) the outcome is [(9, 3)].
\<close>

theorem missing_lists_orphaned_sales:
  "(empty sales \<or> empty customers \<longrightarrow> missing sales customers = Inr None)
   \<and> (\<not> empty sales \<and> \<not> empty customers
        \<and> column_index sales ''sale_id'' = Inr i
        \<and> column_index sales ''customer_id'' = Inr j
        \<and> column_index customers ''customer_id'' = Inr k \<longrightarrow>
       missing sales customers
         = Inr (Some \<lparr>columns = [''sale_id'', ''customer_id''],
                      rows = map (\<lambda>r. [cell_at r i, cell_at r j])
                               (filter (\<lambda>r. cell_at r j \<notin> set (series customers k))
                                  (rows sales))\<rparr>))
   \<and> missing \<lparr>columns = [''sale_id'', ''customer_id''], rows = [[Num 9, Num 3]]\<rparr>
              \<lparr>columns = [''customer_id''], rows = [[Num 1], [Num 2]]\<rparr>
       = Inr (Some \<lparr>columns = [''sale_id'', ''customer_id''], rows = [[Num 9, Num 3]]\<rparr>)
   \<and> missing \<lparr>columns = [''sale_id'', ''customer_id''], rows = [[Num 9, Num 3]]\<rparr> DataFrame
       = Inr None"
proof (intro conjI impI)
  assume "empty sales \<or> empty customers"
  then show "missing sales customers = Inr None" by (auto simp: missing_def)
next
  assume a: "\<not> empty sales \<and> \<not> empty customers
        \<and> column_index sales ''sale_id'' = Inr i
        \<and> column_index sales ''customer_id'' = Inr j
        \<and> column_index customers ''customer_id'' = Inr k"
  let ?kept = "sales\<lparr>rows := filter (\<lambda>r. cell_at r j \<notin> set (series customers k)) (rows sales)\<rparr>"
  have sel: "select_rows (map (\<lambda>c. c \<notin> set (series customers k)) (series sales j)) sales = ?kept"
    by (rule select_rows_by_cell)
  have "select_columns [''sale_id'', ''customer_id''] ?kept
      = Inr \<lparr>columns = [''sale_id'', ''customer_id''],
             rows = map (\<lambda>r. [cell_at r i, cell_at r j]) (rows ?kept)\<rparr>"
    using a by (intro select_two_columns) simp_all
  then show "missing sales customers
         = Inr (Some \<lparr>columns = [''sale_id'', ''customer_id''],
                      rows = map (\<lambda>r. [cell_at r i, cell_at r j])
                               (filter (\<lambda>r. cell_at r j \<notin> set (series customers k))
                                  (rows sales))\<rparr>)"
    using a by (simp add: missing_def and_then_def column_Inr sel)
next
  show "missing \<lparr>columns = [''sale_id'', ''customer_id''], rows = [[Num 9, Num 3]]\<rparr>
              \<lparr>columns = [''customer_id''], rows = [[Num 1], [Num 2]]\<rparr>
       = Inr (Some \<lparr>columns = [''sale_id'', ''customer_id''], rows = [[Num 9, Num 3]]\<rparr>)"
    by code_simp
next
  show "missing \<lparr>columns = [''sale_id'', ''customer_id''], rows = [[Num 9, Num 3]]\<rparr> DataFrame
       = Inr None"
    by (simp add: missing_def empty_def DataFrame_def)
qed

theorem missing_lists_orphaned_sales_witness:
  "empty DataFrame
   \<and> missing \<lparr>columns = [''sale_id'', ''customer_id''], rows = [[Num 9, Num 3]]\<rparr> DataFrame = Inr None
   \<and> \<not> empty \<lparr>columns = [''customer_id'', ''sale_id''], rows = [[Num 3, Num 9], [Num 1, Num 10], [Str ''x'', Num 11]]\<rparr>
   \<and> \<not> empty \<lparr>columns = [''customer_id''], rows = [[Num 1], [Num 2]]\<rparr>
   \<and> column_index \<lparr>columns = [''customer_id'', ''sale_id''], rows = [[Num 3, Num 9], [Num 1, Num 10], [Str ''x'', Num 11]]\<rparr> ''sale_id'' = Inr (Suc 0)
   \<and> column_index \<lparr>columns = [''customer_id'', ''sale_id''], rows = [[Num 3, Num 9], [Num 1, Num 10], [Str ''x'', Num 11]]\<rparr> ''customer_id'' = Inr 0
   \<and> column_index \<lparr>columns = [''customer_id''], rows = [[Num 1], [Num 2]]\<rparr> ''customer_id'' = Inr 0
   \<and> missing \<lparr>columns = [''customer_id'', ''sale_id''], rows = [[Num 3, Num 9], [Num 1, Num 10], [Str ''x'', Num 11]]\<rparr>
        \<lparr>columns = [''customer_id''], rows = [[Num 1], [Num 2]]\<rparr>
      = Inr (Some \<lparr>columns = [''sale_id'', ''customer_id''], rows = [[Num 9, Num 3], [Num 11, Str ''x'']]\<rparr>)"
proof -
  let ?sales = "\<lparr>columns = [''customer_id'', ''sale_id''], rows = [[Num 3, Num 9], [Num 1, Num 10], [Str ''x'', Num 11]]\<rparr>"
  let ?cust = "\<lparr>columns = [''customer_id''], rows = [[Num 1], [Num 2]]\<rparr>"
  let ?one = "\<lparr>columns = [''sale_id'', ''customer_id''], rows = [[Num 9, Num 3]]\<rparr>"
  have e: "empty DataFrame" by (simp add: empty_def DataFrame_def)
  have ne: "\<not> empty ?sales" "\<not> empty ?cust" by (simp_all add: empty_def)
  have ci: "column_index ?sales ''sale_id'' = Inr (Suc 0)"
    "column_index ?sales ''customer_id'' = Inr 0"
    "column_index ?cust ''customer_id'' = Inr 0"
    by (simp_all add: column_index_def positions_def upt_rec)
  have skipped: "missing ?one DataFrame = Inr None"
    using missing_lists_orphaned_sales [of ?one DataFrame] e by blast
  have "missing ?sales ?cust
      = Inr (Some \<lparr>columns = [''sale_id'', ''customer_id''],
                   rows = map (\<lambda>r. [cell_at r (Suc 0), cell_at r 0])
                            (filter (\<lambda>r. cell_at r 0 \<notin> set (series ?cust 0)) (rows ?sales))\<rparr>)"
    using missing_lists_orphaned_sales [of ?sales ?cust "Suc 0" 0 0] ne ci by blast
  then have "missing ?sales ?cust
      = Inr (Some \<lparr>columns = [''sale_id'', ''customer_id''], rows = [[Num 9, Num 3], [Num 11, Str ''x'']]\<rparr>)"
    by (simp add: series_def cell_at_def)
  with e ne ci skipped show ?thesis by blast
qed

text \<open>
  Claim C4. The negative-amounts check is meant to be defined on every sales table,
  the empty one included. On the table that \<open>load_data\<close> yields for an absent sales
  file (no columns, no rows) button 3 raises \<open>KeyError\<close>, because, unlike button 2 and
  every other section, it has no guard on \<open>sales.empty\<close>. On sales with a header the
  check does what the claim says: [(1, -5), (2, 10)] gives [(1, -5)], and an empty table
  with a header gives the empty table.
\<close>

theorem neg_raises_on_absent_sales:
  "load_data literal_parsers (None, None, None) = Inr (DataFrame, DataFrame, DataFrame)
   \<and> neg DataFrame = Inl (KeyError ''total_amount'')
   \<and> missing DataFrame DataFrame = Inr None
   \<and> neg \<lparr>columns = [''sale_id'', ''total_amount''], rows = [[Num 1, Num (- 5)], [Num 2, Num 10]]\<rparr>
       = Inr \<lparr>columns = [''sale_id'', ''total_amount''], rows = [[Num 1, Num (- 5)]]\<rparr>
   \<and> neg \<lparr>columns = [''sale_id'', ''total_amount''], rows = []\<rparr>
       = Inr \<lparr>columns = [''sale_id'', ''total_amount''], rows = []\<rparr>"
  by code_simp

text \<open>
  Claim C7. \<open>load_data\<close> coerces a column only when its label is present, so a sales table
  without \<open>sale_date\<close> passes normalization untouched; but the monthly trend then reads
  \<open>sale_date\<close> without such a check and raises \<open>KeyError\<close> instead of degrading.
\<close>

theorem monthly_raises_without_sale_date:
  "normalize literal_parsers
     (DataFrame, DataFrame, \<lparr>columns = [''sale_id'', ''total_amount''], rows = [[Num 1, Str ''10'']]\<rparr>)
     = Inr (DataFrame, DataFrame, \<lparr>columns = [''sale_id'', ''total_amount''], rows = [[Num 1, Num 10]]\<rparr>)
   \<and> \<not> empty \<lparr>columns = [''sale_id'', ''total_amount''], rows = [[Num 1, Num 10]]\<rparr>
   \<and> monthly \<lparr>columns = [''sale_id'', ''total_amount''], rows = [[Num 1, Num 10]]\<rparr>
       = Inl (KeyError ''sale_date'')"
  by code_simp

end
